theory Spec2Isabelle
  imports Main
begin

section \<open>CodeTool: snippet catalogue and command dispatcher\<close>

text \<open>
  A shallow embedding of \<^verbatim>\<open>src/tool/codetool.py\<close>. Python's \<^verbatim>\<open>str\<close> is modelled by
  \<^typ>\<open>string\<close>; a \<^typ>\<open>char\<close> stands for the code point of the same number, so the
  model covers the texts whose code points are below 256. The two optional third-party
  modules (\<^verbatim>\<open>autopep8\<close>, \<^verbatim>\<open>pyflakes\<close>) are parameters: \<open>None\<close> when the import
  fails, \<open>Some f\<close> when the module is installed and computes \<open>f\<close>.
\<close>

subsection \<open>The operations of Python's \<^verbatim>\<open>str\<close> that the program uses\<close>

text \<open>The characters at which \<^verbatim>\<open>str.splitlines\<close> ends a line.\<close>

definition is_linebreak :: "char \<Rightarrow> bool" where
  "is_linebreak c = (c \<in> set [CHR 0x0A, CHR 0x0B, CHR 0x0C, CHR 0x0D,
                               CHR 0x1C, CHR 0x1D, CHR 0x1E, CHR 0x85])"

text \<open>The characters that \<^verbatim>\<open>str.isspace\<close>, \<^verbatim>\<open>str.strip\<close> and \<^verbatim>\<open>str.split\<close> treat as
  white space.\<close>

definition is_space :: "char \<Rightarrow> bool" where
  "is_space c = (c \<in> set [CHR 0x09, CHR 0x0A, CHR 0x0B, CHR 0x0C, CHR 0x0D,
                          CHR 0x1C, CHR 0x1D, CHR 0x1E, CHR 0x1F, CHR 0x20,
                          CHR 0x85, CHR 0xA0])"

text \<open>\<^verbatim>\<open>s.isspace()\<close>: at least one character, and all of them white space.\<close>

definition isspace :: "string \<Rightarrow> bool" where
  "isspace s = (s \<noteq> [] \<and> list_all is_space s)"

text \<open>\<^verbatim>\<open>s.strip()\<close> removes the white space at both ends.\<close>

definition strip :: "string \<Rightarrow> string" where
  "strip s = rev (dropWhile is_space (rev (dropWhile is_space s)))"

text \<open>\<^verbatim>\<open>s.split()\<close>: the maximal runs of characters that are not white space. The first
  argument of \<open>split_from\<close> is the word read so far.\<close>

fun split_from :: "string \<Rightarrow> string \<Rightarrow> string list" where
  "split_from w [] = (if w = [] then [] else [w])"
| "split_from w (c # cs) =
     (if is_space c then (if w = [] then split_from [] cs else w # split_from [] cs)
      else split_from (w @ [c]) cs)"

definition split :: "string \<Rightarrow> string list" where
  "split s = split_from [] s"

text \<open>\<^verbatim>\<open>s.startswith(p)\<close>.\<close>

fun startswith :: "string \<Rightarrow> string \<Rightarrow> bool" where
  "startswith s [] = True"
| "startswith [] (p # ps) = False"
| "startswith (c # cs) (p # ps) = (c = p \<and> startswith cs ps)"

text \<open>\<^verbatim>\<open>sep.join(xs)\<close>.\<close>

fun join :: "string \<Rightarrow> string list \<Rightarrow> string" where
  "join sep [] = []"
| "join sep [x] = x"
| "join sep (x # y # ys) = x @ sep @ join sep (y # ys)"

text \<open>\<^verbatim>\<open>s.splitlines(True)\<close>: the lines of \<open>s\<close>, each with its line ending. A carriage
  return followed by a line feed is one line ending. The first argument of
  \<open>splitlines_from\<close> is the part of the current line read so far; a last line without a
  line ending is kept when it is not empty.\<close>

fun splitlines_from :: "string \<Rightarrow> string \<Rightarrow> string list" where
  "splitlines_from l [] = (if l = [] then [] else [l])"
| "splitlines_from l [c] = [l @ [c]]"
| "splitlines_from l (c # d # ds) =
     (if c = CHR 0x0D \<and> d = CHR 0x0A then (l @ [c, d]) # splitlines_from [] ds
      else if is_linebreak c then (l @ [c]) # splitlines_from [] (d # ds)
      else splitlines_from (l @ [c]) (d # ds))"

definition splitlines :: "string \<Rightarrow> string list" where
  "splitlines s = splitlines_from [] s"

text \<open>\<^verbatim>\<open>d.get(k, default)\<close> on a dictionary.\<close>

definition dict_get :: "('k \<rightharpoonup> 'v) \<Rightarrow> 'k \<Rightarrow> 'v \<Rightarrow> 'v" where
  "dict_get d k dflt = (case d k of None \<Rightarrow> dflt | Some v \<Rightarrow> v)"

subsection \<open>The standard library's \<^verbatim>\<open>textwrap.indent\<close>\<close>

text \<open>
  \<^verbatim>\<open>textwrap.indent(text, prefix)\<close> with the default predicate: it walks over
  \<^verbatim>\<open>text.splitlines(True)\<close> and collects the pieces of the result, putting \<open>prefix\<close>
  before every line that does not consist of white space only.
\<close>

fun prefixed_lines :: "string \<Rightarrow> string list \<Rightarrow> string list \<Rightarrow> string list" where
  "prefixed_lines prefix [] acc = acc"
| "prefixed_lines prefix (line # lines) acc =
     prefixed_lines prefix lines
       ((if \<not> isspace line then acc @ [prefix] else acc) @ [line])"

definition indent :: "string \<Rightarrow> string \<Rightarrow> string" where
  "indent text prefix = concat (prefixed_lines prefix (splitlines text) [])"

subsection \<open>Utility functions\<close>

definition list_languages :: "string list" where
  "list_languages = [''python'', ''java'', ''perl'', ''lua'', ''kotlin'']"

definition snippets :: "string \<rightharpoonup> (string \<rightharpoonup> string)" where
  \<open>snippets = map_of
    [(''python'', map_of
        [(''hello'',
          ''print("Hello, world!")''),
         (''function'',
          ''def my_function(arg1, arg2):\<newline>    """Example function."""\<newline>    return arg1 + arg2''),
         (''class'',
          ''class MyClass:\<newline>    def __init__(self, value):\<newline>        self.value = value\<newline>    def __str__(self):\<newline>        return f"MyClass: {self.value}"'')]),
     (''java'', map_of
        [(''hello'',
          ''public class HelloWorld {\<newline>    public static void main(String[] args) {\<newline>        System.out.println("Hello, world!");\<newline>    }\<newline>}''),
         (''function'',
          ''public int add(int a, int b) {\<newline>    return a + b;\<newline>}''),
         (''class'',
          ''public class MyClass {\<newline>    private int value;\<newline>    public MyClass(int value) {\<newline>        this.value = value;\<newline>    }\<newline>    public String toString() {\<newline>        return "MyClass: " + value;\<newline>    }\<newline>}'')]),
     (''perl'', map_of
        [(''hello'',
          (''print "Hello, world!'' @ [CHR 0x5C] @ ''n";'')),
         (''function'',
          ''sub add {\<newline>    my ($a, $b) = @_;\<newline>    return $a + $b;\<newline>}''),
         (''class'',
          ''package MyClass;\<newline>sub new {\<newline>    my ($class, $value) = @_;\<newline>    bless { value => $value }, $class;\<newline>}\<newline>sub value {\<newline>    my $self = shift;\<newline>    return $self->{value};\<newline>}\<newline>1;'')]),
     (''lua'', map_of
        [(''hello'',
          ''print("Hello, world!")''),
         (''function'',
          ''function add(a, b)\<newline>    return a + b\<newline>end''),
         (''class'',
          ''MyClass = {}\<newline>MyClass.__index = MyClass\<newline>function MyClass:new(value)\<newline>    local inst = setmetatable({}, self)\<newline>    inst.value = value\<newline>    return inst\<newline>end\<newline>function MyClass:toString()\<newline>    return "MyClass: " .. tostring(self.value)\<newline>end'')]),
     (''kotlin'', map_of
        [(''hello'',
          ''fun main() {\<newline>    println("Hello, world!")\<newline>}''),
         (''function'',
          ''fun add(a: Int, b: Int): Int {\<newline>    return a + b\<newline>}''),
         (''class'',
          ''class MyClass(val value: Int) {\<newline>    override fun toString(): String = "MyClass: $value"\<newline>}'')])]\<close>

definition no_snippet :: string where
  "no_snippet = ''# No snippet found for this topic/language.''"

definition get_snippet :: "string \<Rightarrow> string \<Rightarrow> string" where
  "get_snippet lang topic = dict_get (dict_get snippets lang Map.empty) topic no_snippet"

definition docs :: "string \<rightharpoonup> string" where
  "docs = map_of
    [(''python'', ''https://docs.python.org/3/''),
     (''java'', ''https://docs.oracle.com/en/java/''),
     (''perl'', ''https://perldoc.perl.org/''),
     (''lua'', ''https://www.lua.org/manual/5.4/''),
     (''kotlin'', ''https://kotlinlang.org/docs/home.html'')]"

definition doc_link :: "string \<Rightarrow> string \<Rightarrow> string" where
  "doc_link lang topic = dict_get docs lang ''# No documentation link found.''"

definition generate_template :: "string \<Rightarrow> string \<Rightarrow> string" where
  "generate_template lang kind =
     (if kind = ''hello'' then get_snippet lang ''hello''
      else if kind = ''function'' then get_snippet lang ''function''
      else if kind = ''class'' then get_snippet lang ''class''
      else ''# Template not available.'')"

text \<open>\<^verbatim>\<open>format_code\<close>; the first argument is \<^verbatim>\<open>autopep8.fix_code\<close> when the module can be
  imported.\<close>

definition format_code :: "(string \<Rightarrow> string) option \<Rightarrow> string \<Rightarrow> string \<Rightarrow> string" where
  "format_code autopep8 lang code =
     (if lang = ''python'' then
        (case autopep8 of
           Some fix_code \<Rightarrow> fix_code code
         | None \<Rightarrow> ''# autopep8 not installed, returning original code.\<newline>'' @ code)
      else if lang = ''java'' then indent code ''    ''
      else code)"

text \<open>\<^verbatim>\<open>lint_code\<close>; the first argument is the report that \<^verbatim>\<open>pyflakes.api.check\<close> writes
  for a source text, when the module can be imported.\<close>

definition lint_code :: "(string \<Rightarrow> string) option \<Rightarrow> string \<Rightarrow> string \<Rightarrow> string" where
  "lint_code pyflakes lang code =
     (if lang = ''python'' then
        (case pyflakes of
           Some check \<Rightarrow> check code
         | None \<Rightarrow> ''# pyflakes not installed, skipping lint.'')
      else ''# Lint not supported for this language in this demo.'')"

subsection \<open>The command line\<close>

text \<open>
  What the program writes on standard output, in order: \<open>Print s\<close> is a call
  \<^verbatim>\<open>print(s)\<close> (the text \<open>s\<close> and a line feed), \<open>Prompt s\<close> is the prompt that
  \<^verbatim>\<open>input(s)\<close> writes before it reads a line.
\<close>

datatype event = Print string | Prompt string

text \<open>The exceptions that leave \<^verbatim>\<open>main\<close>: \<^verbatim>\<open>input\<close> raises \<^verbatim>\<open>EOFError\<close> at the end
  of standard input, \<^verbatim>\<open>sys.exit(n)\<close> raises \<^verbatim>\<open>SystemExit\<close>.\<close>

datatype py_exc = EOFError | SystemExit int

text \<open>The status with which the process ends: 0 when \<^verbatim>\<open>main\<close> returns, the argument of
  \<^verbatim>\<open>sys.exit\<close>, and 1 for an exception that nothing catches.\<close>

fun exit_status :: "py_exc + unit \<Rightarrow> int" where
  "exit_status (Inr u) = 0"
| "exit_status (Inl (SystemExit n)) = n"
| "exit_status (Inl EOFError) = 1"

text \<open>The optional modules that the program tries to import.\<close>

record deps =
  autopep8 :: "(string \<Rightarrow> string) option"
  pyflakes :: "(string \<Rightarrow> string) option"

text \<open>\<^verbatim>\<open>print_header(title)\<close>.\<close>

definition print_header :: "string \<Rightarrow> event list" where
  "print_header title =
     [Print (replicate 70 (CHR ''='')), Print title, Print (replicate 70 (CHR ''=''))]"

definition supported_languages :: string where
  "supported_languages = ''Supported languages: '' @ join '', '' list_languages"

definition help_text :: string where
  \<open>help_text = ''\<newline>Commands:\<newline>    snippet <lang> <topic>   - Show code snippet (topics: hello, function, class)\<newline>    format <lang>            - Format code from stdin (end with EOF)\<newline>    lint <lang>              - Lint code from stdin (end with EOF)\<newline>    doc <lang>               - Show documentation link\<newline>    template <lang> <kind>   - Generate starter template (hello, function, class)\<newline>    langs                    - List supported languages\<newline>    help                     - Show this help\<newline>    exit                     - Quit\<newline>''\<close>

text \<open>
  Standard input is the text that is still unread. \<^verbatim>\<open>input()\<close> raises \<^verbatim>\<open>EOFError\<close>
  (\<open>None\<close>) when nothing is left; otherwise it reads up to and including the next line
  feed and returns the line without it, together with the rest of the input. A last line
  without a line feed is returned as it is.
\<close>

definition input :: "string \<Rightarrow> (string \<times> string) option" where
  "input stdin =
     (if stdin = [] then None
      else Some (takeWhile (\<lambda>c. c \<noteq> CHR 0x0A) stdin,
                 drop 1 (dropWhile (\<lambda>c. c \<noteq> CHR 0x0A) stdin)))"

datatype flow = Continue | Break

text \<open>
  One turn of the loop of \<^verbatim>\<open>interactive_cli\<close>, for the stripped line \<open>cmd\<close>: what it
  prints, whether the loop goes on, and the standard input that is left
  (\<^verbatim>\<open>sys.stdin.read()\<close> takes all of it). Python finds the function that the name
  \<^verbatim>\<open>doc_link\<close> is bound to when the call is made; that function is the parameter \<open>dl\<close>.
\<close>

definition interactive_body ::
  "(string \<Rightarrow> string \<Rightarrow> string) \<Rightarrow> deps \<Rightarrow> string \<Rightarrow> string \<Rightarrow> event list \<times> flow \<times> string" where
  \<open>interactive_body dl d cmd stdin =
     (if cmd = ''exit'' then ([Print ''Goodbye!''], Break, stdin)
      else if cmd = ''help'' then ([Print help_text], Continue, stdin)
      else if startswith cmd ''langs'' then ([Print supported_languages], Continue, stdin)
      else if startswith cmd ''snippet '' then
        (let parts = split cmd in
         if length parts \<noteq> 3 then ([Print ''Usage: snippet <lang> <topic>''], Continue, stdin)
         else ([Print (get_snippet (parts ! 1) (parts ! 2))], Continue, stdin))
      else if startswith cmd ''template '' then
        (let parts = split cmd in
         if length parts \<noteq> 3 then ([Print ''Usage: template <lang> <kind>''], Continue, stdin)
         else ([Print (generate_template (parts ! 1) (parts ! 2))], Continue, stdin))
      else if startswith cmd ''format '' then
        (let parts = split cmd in
         if length parts \<noteq> 2 then ([Print ''Usage: format <lang>''], Continue, stdin)
         else ([Print ''Paste code, then Ctrl-D (EOF):'',
                Print (format_code (autopep8 d) (parts ! 1) stdin)], Continue, []))
      else if startswith cmd ''lint '' then
        (let parts = split cmd in
         if length parts \<noteq> 2 then ([Print ''Usage: lint <lang>''], Continue, stdin)
         else ([Print ''Paste code, then Ctrl-D (EOF):'',
                Print (lint_code (pyflakes d) (parts ! 1) stdin)], Continue, []))
      else if startswith cmd ''doc '' then
        (let parts = split cmd in
         if length parts \<noteq> 2 then ([Print ''Usage: doc <lang>''], Continue, stdin)
         else ([Print (dl (parts ! 1) [])], Continue, stdin))
      else ([Print ''Unknown command. Type 'help'.''], Continue, stdin))\<close>

lemma input_shorter: "input stdin = Some (line, rest) \<Longrightarrow> length rest < length stdin"
proof -
  assume a: "input stdin = Some (line, rest)"
  then have ne: "stdin \<noteq> []" and r: "rest = drop 1 (dropWhile (\<lambda>c. c \<noteq> CHR 0x0A) stdin)"
    by (auto simp: input_def split: if_splits)
  show ?thesis
  proof (cases "dropWhile (\<lambda>c. c \<noteq> CHR 0x0A) stdin = []")
    case True
    with ne r show ?thesis by simp
  next
    case False
    have "length (dropWhile (\<lambda>c. c \<noteq> CHR 0x0A) stdin) \<le> length stdin"
      by (rule length_dropWhile_le)
    with False r show ?thesis by (cases "dropWhile (\<lambda>c. c \<noteq> CHR 0x0A) stdin") auto
  qed
qed

lemma interactive_body_rest:
  "interactive_body dl d cmd stdin = (out, fl, rest) \<Longrightarrow> length rest \<le> length stdin"
  by (auto simp: interactive_body_def Let_def split: if_splits)

text \<open>
  The loop of \<^verbatim>\<open>interactive_cli\<close>. Every turn reads at least one character, so on a
  standard input of finite length the loop ends: with \<^verbatim>\<open>break\<close> (\<open>Inr ()\<close>), or with
  the \<^verbatim>\<open>EOFError\<close> of \<^verbatim>\<open>input\<close>.
\<close>

function interactive_loop ::
  "(string \<Rightarrow> string \<Rightarrow> string) \<Rightarrow> deps \<Rightarrow> string \<Rightarrow> event list \<times> (py_exc + unit)" where
  "interactive_loop dl d stdin =
     (case input stdin of
        None \<Rightarrow> ([Prompt ''codetool> ''], Inl EOFError)
      | Some (line, rest) \<Rightarrow>
          (case interactive_body dl d (strip line) rest of
             (out, Break, rest') \<Rightarrow> (Prompt ''codetool> '' # out, Inr ())
           | (out, Continue, rest') \<Rightarrow>
               (case interactive_loop dl d rest' of
                  (out', r) \<Rightarrow> (Prompt ''codetool> '' # out @ out', r))))"
  by pat_completeness auto
termination
  apply (relation "measure (\<lambda>(dl, d, stdin). length stdin)")
   apply simp
  apply (auto dest!: input_shorter interactive_body_rest [OF sym])
  done

declare interactive_loop.simps [simp del]

text \<open>\<^verbatim>\<open>interactive_cli\<close>: the banner, then the loop.\<close>

definition interactive_cli_with ::
  "(string \<Rightarrow> string \<Rightarrow> string) \<Rightarrow> deps \<Rightarrow> string \<Rightarrow> event list \<times> (py_exc + unit)" where
  \<open>interactive_cli_with dl d stdin =
     (case interactive_loop dl d stdin of
        (out, r) \<Rightarrow>
          (print_header ''CodeTool - Interactive Code Helper'' @
           [Print supported_languages, Print ''Type 'help' for commands, 'exit' to quit.''] @
           out, r))\<close>

definition interactive_cli :: "deps \<Rightarrow> string \<Rightarrow> event list \<times> (py_exc + unit)" where
  "interactive_cli = interactive_cli_with doc_link"

text \<open>
  \<^verbatim>\<open>main\<close>, for the argument vector \<^verbatim>\<open>sys.argv\<close> (the program's name first) and the
  standard input. \<^verbatim>\<open>sys.exit(1)\<close> ends the call with \<open>Inl (SystemExit 1)\<close>, and nothing
  more is printed.
\<close>

definition main_with ::
  "(string \<Rightarrow> string \<Rightarrow> string) \<Rightarrow> deps \<Rightarrow> string list \<Rightarrow> string \<Rightarrow> event list \<times> (py_exc + unit)" where
  \<open>main_with dl d argv stdin =
     (if length argv = 1 then interactive_cli_with dl d stdin
      else if length argv \<ge> 2 then
        (if argv ! 1 = ''snippet'' then
           (if length argv \<noteq> 4 then ([Print ''Usage: snippet <lang> <topic>''], Inl (SystemExit 1))
            else ([Print (get_snippet (argv ! 2) (argv ! 3))], Inr ()))
         else if argv ! 1 = ''template'' then
           (if length argv \<noteq> 4 then ([Print ''Usage: template <lang> <kind>''], Inl (SystemExit 1))
            else ([Print (generate_template (argv ! 2) (argv ! 3))], Inr ()))
         else if argv ! 1 = ''format'' then
           (if length argv \<noteq> 3 then ([Print ''Usage: format <lang>''], Inl (SystemExit 1))
            else ([Print ''Paste code, then Ctrl-D (EOF):'',
                   Print (format_code (autopep8 d) (argv ! 2) stdin)], Inr ()))
         else if argv ! 1 = ''lint'' then
           (if length argv \<noteq> 3 then ([Print ''Usage: lint <lang>''], Inl (SystemExit 1))
            else ([Print ''Paste code, then Ctrl-D (EOF):'',
                   Print (lint_code (pyflakes d) (argv ! 2) stdin)], Inr ()))
         else if argv ! 1 = ''doc'' then
           (if length argv \<noteq> 3 then ([Print ''Usage: doc <lang>''], Inl (SystemExit 1))
            else ([Print (dl (argv ! 2) [])], Inr ()))
         else if argv ! 1 = ''langs'' then ([Print supported_languages], Inr ())
         else ([Print ''Unknown command. Try running with no arguments for interactive mode.''],
               Inr ()))
      else ([], Inr ()))\<close>

definition main :: "deps \<Rightarrow> string list \<Rightarrow> string \<Rightarrow> event list \<times> (py_exc + unit)" where
  "main = main_with doc_link"

subsection \<open>Vocabulary of the claims\<close>

text \<open>A line as \<^verbatim>\<open>textwrap.indent\<close> leaves it: a line of white space is kept, any other
  line gets the prefix.\<close>

definition indented :: "string \<Rightarrow> string \<Rightarrow> string" where
  "indented prefix line = (if isspace line then line else prefix @ line)"

text \<open>What "every line prefixed by the indent unit" says: the prefix before each line
  of the code, blank or not.\<close>

definition indent_every_line :: "string \<Rightarrow> string \<Rightarrow> string" where
  "indent_every_line prefix code = concat (map (\<lambda>line. prefix @ line) (splitlines code))"

text \<open>The stripped lines that one of the tests of the interactive loop accepts; every
  other line reaches the last \<^verbatim>\<open>else\<close>.\<close>

definition recognized :: "string \<Rightarrow> bool" where
  "recognized cmd =
     (cmd = ''exit'' \<or> cmd = ''help'' \<or> startswith cmd ''langs'' \<or>
      startswith cmd ''snippet '' \<or> startswith cmd ''template '' \<or>
      startswith cmd ''format '' \<or> startswith cmd ''lint '' \<or> startswith cmd ''doc '')"

section \<open>Auxiliary lemmas\<close>

subsection \<open>Lines and indentation\<close>

lemma prefixed_lines_concat:
  "concat (prefixed_lines p ls acc) = concat acc @ concat (map (indented p) ls)"
  by (induction ls arbitrary: acc) (simp_all add: indented_def)

lemma indent_concat_map: "indent text p = concat (map (indented p) (splitlines text))"
  by (simp add: indent_def prefixed_lines_concat)

lemma splitlines_from_Cons:
  "splitlines_from l (c # cs) =
     (if c = CHR 0x0D \<and> (\<exists>ds. cs = CHR 0x0A # ds) then (l @ [c, CHR 0x0A]) # splitlines_from [] (tl cs)
      else if is_linebreak c then (l @ [c]) # splitlines_from [] cs
      else splitlines_from (l @ [c]) cs)"
  by (cases cs) auto

lemma linebreak_CR: "is_linebreak (CHR 0x0D)"
  by (simp add: is_linebreak_def)

lemma linebreak_LF: "is_linebreak (CHR 0x0A)"
  by (simp add: is_linebreak_def)

lemma splitlines_from_plain:
  "\<forall>c\<in>set x. \<not> is_linebreak c \<Longrightarrow>
   splitlines_from l x = (if l @ x = [] then [] else [l @ x])"
proof (induction x arbitrary: l)
  case Nil
  then show ?case by simp
next
  case (Cons c x)
  then have "c \<noteq> CHR 0x0D" using linebreak_CR by auto
  with Cons show ?case by (simp add: splitlines_from_Cons)
qed

lemma splitlines_from_ending:
  assumes "\<forall>c\<in>set q. \<not> is_linebreak c" and "is_linebreak c"
    and "c = CHR 0x0D \<longrightarrow> (\<forall>t. rest \<noteq> CHR 0x0A # t)"
  shows "splitlines_from l (q @ c # rest) = (l @ q @ [c]) # splitlines_from [] rest"
  using assms(1)
proof (induction q arbitrary: l)
  case Nil
  with assms(2,3) show ?case by (auto simp: splitlines_from_Cons)
next
  case (Cons x q)
  then have "x \<noteq> CHR 0x0D" "\<not> is_linebreak x" using linebreak_CR by auto
  with Cons show ?case by (simp add: splitlines_from_Cons)
qed

lemma splitlines_from_CRLF:
  assumes "\<forall>c\<in>set q. \<not> is_linebreak c"
  shows "splitlines_from l (q @ CHR 0x0D # CHR 0x0A # rest) =
           (l @ q @ [CHR 0x0D, CHR 0x0A]) # splitlines_from [] rest"
  using assms
proof (induction q arbitrary: l)
  case Nil
  show ?case by simp
next
  case (Cons x q)
  then have "x \<noteq> CHR 0x0D" "\<not> is_linebreak x" using linebreak_CR by auto
  with Cons show ?case by (simp add: splitlines_from_Cons)
qed

lemma splitlines_from_first:
  "\<exists>x xs. splitlines_from l (d # ds) = (l @ d # x) # xs"
proof (induction l "d # ds" arbitrary: d ds rule: splitlines_from.induct)
  case (2 l c)
  then show ?case by simp
next
  case (3 l c d ds)
  then show ?case by (auto simp: splitlines_from_Cons)
qed


lemma indented_cases:
  "indented p x = x \<or> indented p x = p @ x"
  by (simp add: indented_def)

lemma not_LF_first:
  assumes "\<forall>c\<in>set p. \<not> is_linebreak c" and "d \<noteq> CHR 0x0A"
  shows "concat (map (indented p) (splitlines_from [] (d # ds))) \<noteq> CHR 0x0A # t"
proof -
  obtain x xs where f: "splitlines_from [] (d # ds) = (d # x) # xs"
    using splitlines_from_first [of "[]" d ds] by auto
  show ?thesis
  proof (cases "indented p (d # x) = d # x")
    case True
    with f assms(2) show ?thesis by simp
  next
    case False
    then have i: "indented p (d # x) = p @ d # x" using indented_cases [of p "d # x"] by simp
    show ?thesis
    proof (cases p)
      case Nil
      with i f assms(2) show ?thesis by simp
    next
      case (Cons a p')
      with assms(1) have "a \<noteq> CHR 0x0A" using linebreak_LF by auto
      with i f Cons show ?thesis by simp
    qed
  qed
qed

lemma splitlines_from_indented:
  assumes p: "\<forall>c\<in>set p. \<not> is_linebreak c"
  shows "\<forall>c\<in>set l. \<not> is_linebreak c \<Longrightarrow>
         splitlines_from [] (concat (map (indented p) (splitlines_from l s))) =
           map (indented p) (splitlines_from l s)"
proof (induction l s rule: splitlines_from.induct)
  case (1 l)
  show ?case
  proof (cases "l = []")
    case True
    then show ?thesis by simp
  next
    case False
    have "\<forall>c\<in>set (indented p l). \<not> is_linebreak c" "indented p l \<noteq> []"
      using indented_cases [of p l] p 1 False by auto
    then show ?thesis using False splitlines_from_plain [of "indented p l" "[]"] by simp
  qed
next
  case (2 l c)
  obtain q where q: "indented p (l @ [c]) = (q @ l) @ [c]" "\<forall>c\<in>set (q @ l). \<not> is_linebreak c"
    using indented_cases [of p "l @ [c]"] p 2 by auto
  show ?case
  proof (cases "is_linebreak c")
    case True
    then show ?thesis using q splitlines_from_ending [of "q @ l" c "[]" "[]"] by simp
  next
    case False
    with q(2) have "\<forall>a\<in>set ((q @ l) @ [c]). \<not> is_linebreak a" by auto
    then show ?thesis using q(1) splitlines_from_plain [of "(q @ l) @ [c]" "[]"] by simp
  qed
next
  case (3 l c d ds)
  show ?case
  proof (cases "c = CHR 0x0D \<and> d = CHR 0x0A")
    case True
    obtain q where q: "indented p (l @ [c, d]) = (q @ l) @ [c, d]"
        "\<forall>c\<in>set (q @ l). \<not> is_linebreak c"
      using indented_cases [of p "l @ [c, d]"] p 3(4) by auto
    have ih: "splitlines_from [] (concat (map (indented p) (splitlines_from [] ds))) =
                map (indented p) (splitlines_from [] ds)"
      using 3(1) True by simp
    show ?thesis
      using True q ih
        splitlines_from_CRLF [of "q @ l" "[]" "concat (map (indented p) (splitlines_from [] ds))"]
      by simp
  next
    case notcrlf: False
    show ?thesis
    proof (cases "is_linebreak c")
      case True
      obtain q where q: "indented p (l @ [c]) = (q @ l) @ [c]"
          "\<forall>c\<in>set (q @ l). \<not> is_linebreak c"
        using indented_cases [of p "l @ [c]"] p 3(4) by auto
      let ?R = "concat (map (indented p) (splitlines_from [] (d # ds)))"
      have ih: "splitlines_from [] ?R = map (indented p) (splitlines_from [] (d # ds))"
        using 3(2) notcrlf True by simp
      have nl: "c = CHR 0x0D \<longrightarrow> (\<forall>t. ?R \<noteq> CHR 0x0A # t)"
        using notcrlf not_LF_first [OF p, of d ds] by auto
      have "splitlines_from [] ((q @ l) @ c # ?R) = ((q @ l) @ [c]) # splitlines_from [] ?R"
        using splitlines_from_ending [OF q(2) True nl, of "[]"] by simp
      then show ?thesis using notcrlf True q(1) ih by (cases "c = CHR 0x0D") simp_all
    next
      case False
      then show ?thesis using 3(3,4) notcrlf by (cases "c = CHR 0x0D") simp_all
    qed
  qed
qed

lemma splitlines_indent:
  "\<forall>c\<in>set p. \<not> is_linebreak c \<Longrightarrow>
   splitlines (indent code p) = map (indented p) (splitlines code)"
  using splitlines_from_indented [of p "[]" code]
  by (simp add: splitlines_def indent_concat_map)

subsection \<open>The interactive loop\<close>

lemma interactive_loop_eof:
  "input stdin = None \<Longrightarrow> interactive_loop dl d stdin = ([Prompt ''codetool> ''], Inl EOFError)"
  by (subst interactive_loop.simps) simp

lemma interactive_loop_break:
  "input stdin = Some (line, rest) \<Longrightarrow>
   interactive_body dl d (strip line) rest = (out, Break, rest') \<Longrightarrow>
   interactive_loop dl d stdin = (Prompt ''codetool> '' # out, Inr ())"
  by (subst interactive_loop.simps) simp

lemma interactive_loop_continue:
  "input stdin = Some (line, rest) \<Longrightarrow>
   interactive_body dl d (strip line) rest = (out, Continue, rest') \<Longrightarrow>
   interactive_loop dl d stdin =
     (Prompt ''codetool> '' # out @ fst (interactive_loop dl d rest'),
      snd (interactive_loop dl d rest'))"
  by (subst interactive_loop.simps) (simp split: prod.splits)

lemma interactive_body_break:
  "interactive_body dl d cmd rest = (out, Break, rest') \<longleftrightarrow>
     cmd = ''exit'' \<and> out = [Print ''Goodbye!''] \<and> rest' = rest"
  by (auto simp: interactive_body_def Let_def)

lemma interactive_body_unrecognized:
  \<open>\<not> recognized cmd \<Longrightarrow>
   interactive_body dl d cmd rest = ([Print ''Unknown command. Type 'help'.''], Continue, rest)\<close>
  by (simp add: interactive_body_def recognized_def)

lemma startswith_append: "startswith s p \<Longrightarrow> \<exists>r. s = p @ r"
  by (induction s p rule: startswith.induct) auto

lemma strip_langs:
  assumes "startswith line ''langs''"
  shows "\<exists>r. strip line = ''langs'' @ r"
proof -
  obtain r where r: "line = ''langs'' @ r"
    using startswith_append [OF assms] by auto
  have e: "dropWhile is_space ''sgnal'' = ''sgnal''"
    by (simp add: is_space_def)
  have "dropWhile is_space (rev r @ ''sgnal'') = dropWhile is_space (rev r) @ ''sgnal''"
  proof (cases "\<forall>x\<in>set (rev r). is_space x")
    case True
    then have "dropWhile is_space (rev r) = []" by simp
    moreover have "dropWhile is_space (rev r @ ''sgnal'') = dropWhile is_space ''sgnal''"
      using True by (intro dropWhile_append2) simp
    ultimately show ?thesis using e by simp
  next
    case False
    then obtain x where "x \<in> set (rev r)" "\<not> is_space x" by blast
    then show ?thesis by (rule dropWhile_append1)
  qed
  then have "strip line = ''langs'' @ rev (dropWhile is_space (rev r))"
    using r by (simp add: strip_def is_space_def)
  then show ?thesis by blast
qed

lemma interactive_body_langs:
  "startswith line ''langs'' \<Longrightarrow>
   interactive_body dl d (strip line) rest = ([Print supported_languages], Continue, rest)"
  by (auto simp: interactive_body_def dest!: strip_langs)

lemma supported_languages_text:
  "supported_languages = ''Supported languages: python, java, perl, lua, kotlin''"
  by (simp add: supported_languages_def list_languages_def)

lemma strip_bare_verbs:
  "strip ''snippet'' = ''snippet''" "strip ''template'' = ''template''"
  "strip ''format'' = ''format''" "strip ''lint'' = ''lint''" "strip ''doc'' = ''doc''"
  by (simp_all add: strip_def is_space_def)

lemma interactive_body_bare_verbs:
  \<open>interactive_body dl d ''snippet'' rest = ([Print ''Unknown command. Type 'help'.''], Continue, rest)\<close>
  \<open>interactive_body dl d ''template'' rest = ([Print ''Unknown command. Type 'help'.''], Continue, rest)\<close>
  \<open>interactive_body dl d ''format'' rest = ([Print ''Unknown command. Type 'help'.''], Continue, rest)\<close>
  \<open>interactive_body dl d ''lint'' rest = ([Print ''Unknown command. Type 'help'.''], Continue, rest)\<close>
  \<open>interactive_body dl d ''doc'' rest = ([Print ''Unknown command. Type 'help'.''], Continue, rest)\<close>
  by (simp_all add: interactive_body_def)

lemma interactive_body_bare_verb:
  assumes "v \<in> {''snippet'', ''template'', ''format'', ''lint'', ''doc''}"
  shows \<open>interactive_body dl d (strip v) rest =
           ([Print ''Unknown command. Type 'help'.''], Continue, rest)\<close>
proof -
  from assms have "v = ''snippet'' \<or> v = ''template'' \<or> v = ''format'' \<or>
      v = ''lint'' \<or> v = ''doc''"
    by (simp only: insert_iff empty_iff simp_thms)
  then show ?thesis
  proof (elim disjE)
    assume "v = ''snippet''"
    then show ?thesis by (simp only: strip_bare_verbs interactive_body_bare_verbs)
  next
    assume "v = ''template''"
    then show ?thesis by (simp only: strip_bare_verbs interactive_body_bare_verbs)
  next
    assume "v = ''format''"
    then show ?thesis by (simp only: strip_bare_verbs interactive_body_bare_verbs)
  next
    assume "v = ''lint''"
    then show ?thesis by (simp only: strip_bare_verbs interactive_body_bare_verbs)
  next
    assume "v = ''doc''"
    then show ?thesis by (simp only: strip_bare_verbs interactive_body_bare_verbs)
  qed
qed

lemma interactive_body_same_doc:
  "\<forall>l. dl l [] = dl' l [] \<Longrightarrow> interactive_body dl d cmd rest = interactive_body dl' d cmd rest"
  by (simp add: interactive_body_def Let_def)

lemma interactive_loop_same_doc:
  "\<forall>l. dl l [] = dl' l [] \<Longrightarrow> interactive_loop dl d stdin = interactive_loop dl' d stdin"
proof (induction dl d stdin rule: interactive_loop.induct)
  case (1 dl d stdin)
  show ?case
  proof (cases "input stdin")
    case None
    then show ?thesis by (simp add: interactive_loop_eof)
  next
    case (Some a)
    obtain line rest where a: "a = (line, rest)" by (cases a)
    obtain out fl rest' where b: "interactive_body dl d (strip line) rest = (out, fl, rest')"
      by (cases "interactive_body dl d (strip line) rest")
    then have b': "interactive_body dl' d (strip line) rest = (out, fl, rest')"
      using interactive_body_same_doc [of dl dl', OF 1(2)] by simp
    show ?thesis
    proof (cases fl)
      case Continue
      have "interactive_loop dl d rest' = interactive_loop dl' d rest'"
        using 1(1) [OF Some a [symmetric] b [symmetric] refl Continue 1(2)] .
      then show ?thesis
        using Some a b b' Continue
          interactive_loop_continue [of stdin line rest dl d out rest']
          interactive_loop_continue [of stdin line rest dl' d out rest'] by simp
    next
      case Break
      then show ?thesis
        using Some a b b'
          interactive_loop_break [of stdin line rest dl d out rest']
          interactive_loop_break [of stdin line rest dl' d out rest'] by simp
    qed
  qed
qed

lemma interactive_loop_returns:
  "snd (interactive_loop dl d stdin) = Inr () \<Longrightarrow>
   \<exists>es. fst (interactive_loop dl d stdin) = es @ [Print ''Goodbye!'']"
proof (induction dl d stdin rule: interactive_loop.induct)
  case (1 dl d stdin)
  show ?case
  proof (cases "input stdin")
    case None
    with 1(2) show ?thesis by (simp add: interactive_loop_eof)
  next
    case (Some a)
    obtain line rest where a: "a = (line, rest)" by (cases a)
    obtain out fl rest' where b: "interactive_body dl d (strip line) rest = (out, fl, rest')"
      by (cases "interactive_body dl d (strip line) rest")
    show ?thesis
    proof (cases fl)
      case Continue
      have l: "interactive_loop dl d stdin =
          (Prompt ''codetool> '' # out @ fst (interactive_loop dl d rest'),
           snd (interactive_loop dl d rest'))"
        using Some a b Continue interactive_loop_continue [of stdin line rest dl d out rest']
        by simp
      with 1(2) have "snd (interactive_loop dl d rest') = Inr ()" by simp
      then obtain es where "fst (interactive_loop dl d rest') = es @ [Print ''Goodbye!'']"
        using 1(1) [OF Some a [symmetric] b [symmetric] refl Continue] by auto
      with l show ?thesis by simp
    next
      case Break
      with b have "out = [Print ''Goodbye!'']" by (simp add: interactive_body_break)
      then show ?thesis
        using Some a b Break interactive_loop_break [of stdin line rest dl d out rest']
        by simp
    qed
  qed
qed

lemma session_doc_lua_exit:
  "interactive_loop doc_link d ''doc lua\<newline>exit\<newline>'' =
     ([Prompt ''codetool> '', Print ''https://www.lua.org/manual/5.4/'',
       Prompt ''codetool> '', Print ''Goodbye!''], Inr ())"
proof -
  have i1: "input ''doc lua\<newline>exit\<newline>'' = Some (''doc lua'', ''exit\<newline>'')"
    by (simp add: input_def)
  have s1: "strip ''doc lua'' = ''doc lua''"
    by (simp add: strip_def is_space_def)
  have b1: "interactive_body doc_link d ''doc lua'' ''exit\<newline>'' =
      ([Print ''https://www.lua.org/manual/5.4/''], Continue, ''exit\<newline>'')"
    by (simp add: interactive_body_def split_def is_space_def doc_link_def docs_def dict_get_def)
  have i2: "input ''exit\<newline>'' = Some (''exit'', [])"
    by (simp add: input_def)
  have s2: "strip ''exit'' = ''exit''"
    by (simp add: strip_def is_space_def)
  have b2: "interactive_body doc_link d ''exit'' [] = ([Print ''Goodbye!''], Break, [])"
    by (simp add: interactive_body_def)
  have l2: "interactive_loop doc_link d ''exit\<newline>'' = ([Prompt ''codetool> '', Print ''Goodbye!''], Inr ())"
    using interactive_loop_break [OF i2, of doc_link d] s2 b2 by simp
  show ?thesis
    using interactive_loop_continue [OF i1, of doc_link d] s1 b1 l2 by simp
qed

section \<open>The claims\<close>

text \<open>
  Claim C1: for a supported language (\<open>python\<close>, \<open>java\<close>, \<open>perl\<close>, \<open>lua\<close>, \<open>kotlin\<close>)
  and a supported topic (\<open>hello\<close>, \<open>function\<close>, \<open>class\<close>), \<open>get_snippet\<close> returns a text
  that is not empty (and is not the "not found" text); for every other pair of strings
  it returns exactly \<open># No snippet found for this topic/language.\<close> The function is
  total: it has a value, and the same one, at every pair of strings.
\<close>

theorem get_snippet_supported_or_sentinel:
  "(lang \<in> {''python'', ''java'', ''perl'', ''lua'', ''kotlin''} \<and>
    topic \<in> {''hello'', ''function'', ''class''} \<longrightarrow>
      get_snippet lang topic \<noteq> [] \<and>
      get_snippet lang topic \<noteq> ''# No snippet found for this topic/language.'') \<and>
   (\<not> (lang \<in> {''python'', ''java'', ''perl'', ''lua'', ''kotlin''} \<and>
       topic \<in> {''hello'', ''function'', ''class''}) \<longrightarrow>
      get_snippet lang topic = ''# No snippet found for this topic/language.'')"
  by (auto simp: get_snippet_def snippets_def dict_get_def no_snippet_def)

theorem get_snippet_supported_or_sentinel_witness:
  "''kotlin'' \<in> {''python'', ''java'', ''perl'', ''lua'', ''kotlin''} \<and>
   ''class'' \<in> {''hello'', ''function'', ''class''} \<and>
   get_snippet ''kotlin'' ''class'' \<noteq> [] \<and>
   \<not> (''ruby'' \<in> {''python'', ''java'', ''perl'', ''lua'', ''kotlin''} \<and>
      ''hello'' \<in> {''hello'', ''function'', ''class''}) \<and>
   get_snippet ''ruby'' ''hello'' = ''# No snippet found for this topic/language.'' \<and>
   \<not> (''lua'' \<in> {''python'', ''java'', ''perl'', ''lua'', ''kotlin''} \<and>
      ''loop'' \<in> {''hello'', ''function'', ''class''}) \<and>
   get_snippet ''lua'' ''loop'' = ''# No snippet found for this topic/language.''"
  using get_snippet_supported_or_sentinel [of "''kotlin''" "''class''"]
    get_snippet_supported_or_sentinel [of "''ruby''" "''hello''"]
    get_snippet_supported_or_sentinel [of "''lua''" "''loop''"]
  by simp

text \<open>
  Claim C2, as stated: without \<open>autopep8\<close>, \<open>format_code\<close> returns Python code
  unchanged. It does not: the result of \<open>format_code\<close> for the code \<open>x = 1\<close> is another
  text.
\<close>

theorem format_code_python_changes_code:
  "format_code None ''python'' ''x = 1'' \<noteq> ''x = 1''"
  by (simp add: format_code_def)

text \<open>
  Claim C2, amended: without \<open>autopep8\<close>, \<open>format_code\<close> returns, for Python, the line
  \<open># autopep8 not installed, returning original code.\<close> with its line feed, followed by
  the code unchanged.
\<close>

theorem format_code_python_notice:
  "format_code None ''python'' code =
     ''# autopep8 not installed, returning original code.\<newline>'' @ code"
  by (simp add: format_code_def)

text \<open>
  Claim C3: for a kind among \<open>hello\<close>, \<open>function\<close> and \<open>class\<close>, \<open>generate_template\<close>
  returns what \<open>get_snippet\<close> returns for the same language and that kind as the topic,
  whatever the language; for every other kind it returns \<open># Template not available.\<close>
\<close>

theorem generate_template_is_get_snippet:
  "(kind \<in> {''hello'', ''function'', ''class''} \<longrightarrow>
      generate_template lang kind = get_snippet lang kind) \<and>
   (kind \<notin> {''hello'', ''function'', ''class''} \<longrightarrow>
      generate_template lang kind = ''# Template not available.'')"
  by (auto simp: generate_template_def)

theorem generate_template_is_get_snippet_witness:
  "''hello'' \<in> {''hello'', ''function'', ''class''} \<and>
   generate_template ''lua'' ''hello'' = get_snippet ''lua'' ''hello'' \<and>
   ''script'' \<notin> {''hello'', ''function'', ''class''} \<and>
   generate_template ''lua'' ''script'' = ''# Template not available.''"
  using generate_template_is_get_snippet [of "''hello''" "''lua''"]
    generate_template_is_get_snippet [of "''script''" "''lua''"]
  by simp

text \<open>
  Claim C4, as stated: \<open>format_code\<close> returns Java code with every line prefixed by four
  spaces. It does not: in the code \<open>a\<close>, empty line, \<open>b\<close> the empty line stays as it is.
\<close>

theorem format_code_java_skips_blank_line:
  "format_code None ''java'' ''a\<newline>\<newline>b'' = ''    a\<newline>\<newline>    b'' \<and>
   format_code None ''java'' ''a\<newline>\<newline>b'' \<noteq> indent_every_line ''    '' ''a\<newline>\<newline>b''"
  by (simp add: format_code_def indent_def splitlines_def indent_every_line_def isspace_def
      is_space_def is_linebreak_def)

text \<open>
  Claim C4, amended: for Java, \<open>format_code\<close> returns the code with four spaces put
  before every line that does not consist of white space only, and the lines of white
  space unchanged: the result is the concatenation of these lines, and its lines are
  these lines, one for each line of the code. For every language other than \<open>python\<close>
  and \<open>java\<close> it returns the code unchanged.
\<close>

theorem format_code_java_indents_lines:
  "format_code ap ''java'' code = concat (map (indented ''    '') (splitlines code)) \<and>
   splitlines (format_code ap ''java'' code) = map (indented ''    '') (splitlines code) \<and>
   (lang \<noteq> ''python'' \<and> lang \<noteq> ''java'' \<longrightarrow> format_code ap lang code = code)"
proof -
  have p: "\<forall>c\<in>set ''    ''. \<not> is_linebreak c"
    by (simp add: is_linebreak_def)
  have j: "format_code ap ''java'' code = indent code ''    ''"
    by (simp add: format_code_def)
  show ?thesis
    using j indent_concat_map [of code "''    ''"] splitlines_indent [OF p, of code]
    by (simp add: format_code_def)
qed

theorem format_code_java_indents_lines_witness:
  "splitlines (format_code None ''java'' ''a\<newline>\<newline>b'') = [''    a\<newline>'', ''\<newline>'', ''    b''] \<and>
   ''lua'' \<noteq> ''python'' \<and> ''lua'' \<noteq> ''java'' \<and>
   format_code None ''lua'' ''a\<newline>\<newline>b'' = ''a\<newline>\<newline>b''"
  using format_code_java_indents_lines [of None "''a\<newline>\<newline>b''" "''lua''"]
  by (simp add: splitlines_def indented_def isspace_def is_space_def is_linebreak_def)

text \<open>
  Claim C5: without \<open>pyflakes\<close>, \<open>lint_code\<close> returns, for Python and any code, the text
  \<open># pyflakes not installed, skipping lint.\<close>; for every language other than \<open>python\<close>
  it returns \<open># Lint not supported for this language in this demo.\<close>, with or without
  \<open>pyflakes\<close>.
\<close>

theorem lint_code_messages:
  "lint_code None ''python'' code = ''# pyflakes not installed, skipping lint.'' \<and>
   (lang \<noteq> ''python'' \<longrightarrow>
      lint_code pf lang code = ''# Lint not supported for this language in this demo.'')"
  by (simp add: lint_code_def)

theorem lint_code_messages_witness:
  "lint_code None ''python'' ''import os'' = ''# pyflakes not installed, skipping lint.'' \<and>
   ''java'' \<noteq> ''python'' \<and>
   lint_code (Some (\<lambda>code. [])) ''java'' ''import os'' =
     ''# Lint not supported for this language in this demo.''"
  using lint_code_messages [of "''import os''" "''java''" "Some (\<lambda>code. [])"]
  by simp

text \<open>
  Claim C6: run with the arguments \<open>snippet python hello\<close>, the program prints
  \<open>print("Hello, world!")\<close> and nothing else, and ends with status 0; run with the single
  argument \<open>snippet\<close>, it prints the usage line of \<open>snippet\<close> and ends with status 1.
\<close>

theorem main_snippet_one_shot:
  \<open>main d [prog, ''snippet'', ''python'', ''hello''] stdin =
      ([Print ''print("Hello, world!")''], Inr ()) \<and>
   exit_status (snd (main d [prog, ''snippet'', ''python'', ''hello''] stdin)) = 0 \<and>
   main d [prog, ''snippet''] stdin =
      ([Print ''Usage: snippet <lang> <topic>''], Inl (SystemExit 1)) \<and>
   exit_status (snd (main d [prog, ''snippet''] stdin)) \<noteq> 0\<close>
  by (simp add: main_def main_with_def get_snippet_def snippets_def dict_get_def)

text \<open>
  Claim C7: a turn of the interactive loop ends the loop exactly when the line read,
  without the white space around it, is \<open>exit\<close>; the loop then prints \<open>Goodbye!\<close> and
  returns. A line that no test of the loop recognises prints
  \<open>Unknown command. Type 'help'.\<close> and the loop goes on with the rest of the input. When
  the loop returns, the last text printed is \<open>Goodbye!\<close>. The session with the two input
  lines \<open>doc lua\<close> and \<open>exit\<close> prints the banner, the address of the Lua manual, then
  \<open>Goodbye!\<close>, and returns.
\<close>

theorem interactive_loop_ends_on_exit:
  \<open>(fst (snd (interactive_body dl d cmd rest)) = Break \<longleftrightarrow> cmd = ''exit'') \<and>
   (input stdin = Some (line, rest) \<and> strip line = ''exit'' \<longrightarrow>
      interactive_loop dl d stdin = ([Prompt ''codetool> '', Print ''Goodbye!''], Inr ())) \<and>
   (input stdin = Some (line, rest) \<and> \<not> recognized (strip line) \<longrightarrow>
      interactive_loop dl d stdin =
        (Prompt ''codetool> '' # Print ''Unknown command. Type 'help'.'' #
           fst (interactive_loop dl d rest),
         snd (interactive_loop dl d rest))) \<and>
   (snd (interactive_loop dl d stdin) = Inr () \<longrightarrow>
      (\<exists>es. fst (interactive_loop dl d stdin) = es @ [Print ''Goodbye!''])) \<and>
   interactive_cli d ''doc lua\<newline>exit\<newline>'' =
     (print_header ''CodeTool - Interactive Code Helper'' @
      [Print ''Supported languages: python, java, perl, lua, kotlin'',
       Print ''Type 'help' for commands, 'exit' to quit.'',
       Prompt ''codetool> '', Print ''https://www.lua.org/manual/5.4/'',
       Prompt ''codetool> '', Print ''Goodbye!''], Inr ())\<close>
proof (intro conjI impI)
  show "fst (snd (interactive_body dl d cmd rest)) = Break \<longleftrightarrow> cmd = ''exit''"
    using interactive_body_break [of dl d cmd rest]
    by (cases "interactive_body dl d cmd rest") auto
next
  assume a: "input stdin = Some (line, rest) \<and> strip line = ''exit''"
  then have "interactive_body dl d (strip line) rest = ([Print ''Goodbye!''], Break, rest)"
    by (simp add: interactive_body_break)
  with a show "interactive_loop dl d stdin = ([Prompt ''codetool> '', Print ''Goodbye!''], Inr ())"
    using interactive_loop_break [of stdin line rest dl d "[Print ''Goodbye!'']" rest] by simp
next
  assume a: "input stdin = Some (line, rest) \<and> \<not> recognized (strip line)"
  then show \<open>interactive_loop dl d stdin =
        (Prompt ''codetool> '' # Print ''Unknown command. Type 'help'.'' #
           fst (interactive_loop dl d rest),
         snd (interactive_loop dl d rest))\<close>
    using interactive_loop_continue [of stdin line rest dl d _ rest]
      interactive_body_unrecognized [of "strip line" dl d rest] by simp
next
  assume "snd (interactive_loop dl d stdin) = Inr ()"
  then show "\<exists>es. fst (interactive_loop dl d stdin) = es @ [Print ''Goodbye!'']"
    by (rule interactive_loop_returns)
next
  show \<open>interactive_cli d ''doc lua\<newline>exit\<newline>'' =
     (print_header ''CodeTool - Interactive Code Helper'' @
      [Print ''Supported languages: python, java, perl, lua, kotlin'',
       Print ''Type 'help' for commands, 'exit' to quit.'',
       Prompt ''codetool> '', Print ''https://www.lua.org/manual/5.4/'',
       Prompt ''codetool> '', Print ''Goodbye!''], Inr ())\<close>
    by (simp add: interactive_cli_def interactive_cli_with_def session_doc_lua_exit
        supported_languages_text)
qed

theorem interactive_loop_ends_on_exit_witness:
  \<open>input ''  exit \<newline>help\<newline>'' = Some (''  exit '', ''help\<newline>'') \<and> strip ''  exit '' = ''exit'' \<and>
   interactive_loop doc_link \<lparr>autopep8 = None, pyflakes = None\<rparr> ''  exit \<newline>help\<newline>'' =
     ([Prompt ''codetool> '', Print ''Goodbye!''], Inr ()) \<and>
   input ''quit'' = Some (''quit'', []) \<and> \<not> recognized (strip ''quit'') \<and>
   interactive_loop doc_link \<lparr>autopep8 = None, pyflakes = None\<rparr> ''quit'' =
     ([Prompt ''codetool> '', Print ''Unknown command. Type 'help'.'', Prompt ''codetool> ''],
      Inl EOFError)\<close>
proof -
  have i1: "input ''  exit \<newline>help\<newline>'' = Some (''  exit '', ''help\<newline>'')"
    by (simp add: input_def)
  have s1: "strip ''  exit '' = ''exit''"
    by (simp add: strip_def is_space_def)
  have i2: "input ''quit'' = Some (''quit'', [])"
    by (simp add: input_def)
  have s2: "\<not> recognized (strip ''quit'')"
    by (simp add: strip_def is_space_def recognized_def)
  have e: "interactive_loop doc_link \<lparr>autopep8 = None, pyflakes = None\<rparr> [] =
      ([Prompt ''codetool> ''], Inl EOFError)"
    by (simp add: interactive_loop_eof input_def)
  show ?thesis
    using i1 s1 i2 s2 e
      interactive_loop_ends_on_exit [of doc_link "\<lparr>autopep8 = None, pyflakes = None\<rparr>"
        "''exit''" "''help\<newline>''" "''  exit \<newline>help\<newline>''" "''  exit ''"]
      interactive_loop_ends_on_exit [of doc_link "\<lparr>autopep8 = None, pyflakes = None\<rparr>"
        "''exit''" "[]" "''quit''" "''quit''"]
    by simp
qed

text \<open>
  Claim C8: \<open>list_languages\<close> is the list \<open>python\<close>, \<open>java\<close>, \<open>perl\<close>, \<open>lua\<close>, \<open>kotlin\<close>, in
  this order; it takes no argument and reads no state, so every call returns it.
\<close>

theorem list_languages_exact:
  "list_languages = [''python'', ''java'', ''perl'', ''lua'', ''kotlin'']"
  by (simp add: list_languages_def)

text \<open>
  Claim C9: \<open>doc_link\<close> does not use its topic: for one language, any two topics give the
  same result. The dispatcher calls it with the empty string as the topic: whatever
  function \<open>dl\<close> the name \<open>doc_link\<close> is bound to, the one-shot verb \<open>doc\<close> prints
  \<open>dl lang ''\<close>, the interactive command \<open>doc\<close> with one argument prints \<open>dl lang ''\<close>
  for that argument, and two functions that agree on the empty topic give the same run
  of \<open>main\<close> for every argument vector and every standard input.
\<close>

theorem doc_link_topic_unused:
  "doc_link lang t1 = doc_link lang t2 \<and>
   main_with dl d [prog, ''doc'', lang] stdin = ([Print (dl lang [])], Inr ()) \<and>
   (startswith cmd ''doc '' \<and> length (split cmd) = 2 \<longrightarrow>
      interactive_body dl d cmd rest = ([Print (dl (split cmd ! 1) [])], Continue, rest)) \<and>
   ((\<forall>l. dl l [] = dl' l []) \<longrightarrow> main_with dl d argv stdin = main_with dl' d argv stdin)"
proof (intro conjI impI)
  show "doc_link lang t1 = doc_link lang t2"
    by (simp add: doc_link_def)
next
  show "main_with dl d [prog, ''doc'', lang] stdin = ([Print (dl lang [])], Inr ())"
    by (simp add: main_with_def)
next
  assume a: "startswith cmd ''doc '' \<and> length (split cmd) = 2"
  then obtain r where r: "cmd = ''doc '' @ r"
    using startswith_append [of cmd "''doc ''"] by auto
  with a have "length (split (''doc '' @ r)) = 2" by simp
  then show "interactive_body dl d cmd rest = ([Print (dl (split cmd ! 1) [])], Continue, rest)"
    unfolding r by (simp add: interactive_body_def Let_def)
next
  assume a: "\<forall>l. dl l [] = dl' l []"
  then have "interactive_loop dl d stdin = interactive_loop dl' d stdin"
    by (rule interactive_loop_same_doc)
  with a show "main_with dl d argv stdin = main_with dl' d argv stdin"
    by (simp add: main_with_def interactive_cli_with_def)
qed

theorem doc_link_topic_unused_witness:
  "startswith ''doc lua'' ''doc '' \<and> length (split ''doc lua'') = 2 \<and>
   interactive_body doc_link \<lparr>autopep8 = None, pyflakes = None\<rparr> ''doc lua'' [] =
     ([Print ''https://www.lua.org/manual/5.4/''], Continue, []) \<and>
   (\<forall>l. doc_link l [] = (\<lambda>l t. doc_link l ''intro'') l []) \<and>
   main_with doc_link \<lparr>autopep8 = None, pyflakes = None\<rparr> [''codetool.py''] ''doc lua'' =
     main_with (\<lambda>l t. doc_link l ''intro'') \<lparr>autopep8 = None, pyflakes = None\<rparr>
       [''codetool.py''] ''doc lua''"
proof -
  have s: "split ''doc lua'' = [''doc'', ''lua'']"
    by (simp add: split_def is_space_def)
  have h: "\<forall>l. doc_link l [] = (\<lambda>l t. doc_link l ''intro'') l []"
    by (simp add: doc_link_def)
  have u: "doc_link ''lua'' [] = ''https://www.lua.org/manual/5.4/''"
    by (simp add: doc_link_def docs_def dict_get_def)
  show ?thesis
    using s h u
      doc_link_topic_unused [of "''lua''" "[]" "[]" doc_link
        "\<lparr>autopep8 = None, pyflakes = None\<rparr>" "''codetool.py''" "''doc lua''" "''doc lua''" "[]"
        "\<lambda>l t. doc_link l ''intro''" "[''codetool.py'']"]
    by simp
qed

text \<open>
  Claim C10: the interactive loop tests the beginning of the line. After a line that
  starts with \<open>langs\<close>, whatever follows (\<open>langsxyz\<close>), it prints the list of the supported
  languages and goes on; after a line that is only the verb \<open>snippet\<close>, \<open>template\<close>,
  \<open>format\<close>, \<open>lint\<close> or \<open>doc\<close> it prints \<open>Unknown command. Type 'help'.\<close>, not the usage
  line of the verb, and goes on.
\<close>

theorem interactive_loop_tests_prefix:
  \<open>(input stdin = Some (line, rest) \<and> startswith line ''langs'' \<longrightarrow>
      interactive_loop dl d stdin =
        (Prompt ''codetool> '' # Print ''Supported languages: python, java, perl, lua, kotlin'' #
           fst (interactive_loop dl d rest),
         snd (interactive_loop dl d rest))) \<and>
   (input stdin = Some (v, rest) \<and> v \<in> {''snippet'', ''template'', ''format'', ''lint'', ''doc''} \<longrightarrow>
      interactive_loop dl d stdin =
        (Prompt ''codetool> '' # Print ''Unknown command. Type 'help'.'' #
           fst (interactive_loop dl d rest),
         snd (interactive_loop dl d rest)))\<close>
proof (intro conjI impI)
  assume a: "input stdin = Some (line, rest) \<and> startswith line ''langs''"
  then have "interactive_body dl d (strip line) rest =
      ([Print ''Supported languages: python, java, perl, lua, kotlin''], Continue, rest)"
    by (simp add: interactive_body_langs supported_languages_text)
  with a show "interactive_loop dl d stdin =
        (Prompt ''codetool> '' # Print ''Supported languages: python, java, perl, lua, kotlin'' #
           fst (interactive_loop dl d rest),
         snd (interactive_loop dl d rest))"
    using interactive_loop_continue [of stdin line rest dl d _ rest] by simp
next
  assume a: "input stdin = Some (v, rest) \<and> v \<in> {''snippet'', ''template'', ''format'', ''lint'', ''doc''}"
  then have \<open>interactive_body dl d (strip v) rest =
      ([Print ''Unknown command. Type 'help'.''], Continue, rest)\<close>
    using interactive_body_bare_verb [of v dl d rest] by (simp only:)
  with a show \<open>interactive_loop dl d stdin =
        (Prompt ''codetool> '' # Print ''Unknown command. Type 'help'.'' #
           fst (interactive_loop dl d rest),
         snd (interactive_loop dl d rest))\<close>
    using interactive_loop_continue [of stdin v rest dl d _ rest] by simp
qed

theorem interactive_loop_tests_prefix_witness:
  \<open>input ''langsxyz'' = Some (''langsxyz'', []) \<and> startswith ''langsxyz'' ''langs'' \<and>
   interactive_loop doc_link \<lparr>autopep8 = None, pyflakes = None\<rparr> ''langsxyz'' =
     ([Prompt ''codetool> '', Print ''Supported languages: python, java, perl, lua, kotlin'',
       Prompt ''codetool> ''], Inl EOFError) \<and>
   input ''snippet'' = Some (''snippet'', []) \<and>
   ''snippet'' \<in> {''snippet'', ''template'', ''format'', ''lint'', ''doc''} \<and>
   interactive_loop doc_link \<lparr>autopep8 = None, pyflakes = None\<rparr> ''snippet'' =
     ([Prompt ''codetool> '', Print ''Unknown command. Type 'help'.'', Prompt ''codetool> ''],
      Inl EOFError)\<close>
proof -
  have i1: "input ''langsxyz'' = Some (''langsxyz'', [])"
    by (simp add: input_def)
  have i2: "input ''snippet'' = Some (''snippet'', [])"
    by (simp add: input_def)
  have e: "interactive_loop doc_link \<lparr>autopep8 = None, pyflakes = None\<rparr> [] =
      ([Prompt ''codetool> ''], Inl EOFError)"
    by (simp add: interactive_loop_eof input_def)
  show ?thesis
    using i1 i2 e
      interactive_loop_tests_prefix [of "''langsxyz''" "''langsxyz''" "[]" doc_link
        "\<lparr>autopep8 = None, pyflakes = None\<rparr>" "''snippet''"]
      interactive_loop_tests_prefix [of "''snippet''" "''langsxyz''" "[]" doc_link
        "\<lparr>autopep8 = None, pyflakes = None\<rparr>" "''snippet''"]
    by simp
qed

end
